theory Spec2Isabelle
  imports Complex_Main "HOL-Library.Sublist"
begin

section \<open>Market quote service (src/services/markets.ts)\<close>

text \<open>
  A shallow embedding of the stock and crypto quote fetcher: the rate-limit
  circuit breaker, the single-quote fetch, the batched fetch with its
  last-good cache, and the crypto fetch.

  Effects are explicit. The two module variables, the number of clock reads,
  the network requests issued and the callback invocations are fields of one
  state record that every function takes and returns. What the outside world
  answers (clock readings, transport outcomes) is an environment record. The
  model follows one call of an exported function at a time: no second call
  of the module runs between its steps.
\<close>

subsection \<open>JavaScript numbers\<close>

text \<open>
  A JavaScript number is an IEEE-754 double. The model keeps the three special
  values and takes a finite double as the real it denotes; arithmetic on
  finite values is exact (rounding and overflow are not modelled) and zero is
  unsigned. In the percent-change expression of the source the divisor is
  zero only when the dividend is zero too, so the sign of a zero never
  decides a result there.
\<close>

datatype jsnum = NaN | PInf | NInf | Fin real

text \<open>ToBoolean on a number: \<open>0\<close> and \<open>NaN\<close> are falsy.\<close>

fun truthy :: "jsnum \<Rightarrow> bool" where
  "truthy NaN = False"
| "truthy (Fin x) = (x \<noteq> 0)"
| "truthy PInf = True"
| "truthy NInf = True"

fun jsneg :: "jsnum \<Rightarrow> jsnum" where
  "jsneg NaN = NaN"
| "jsneg PInf = NInf"
| "jsneg NInf = PInf"
| "jsneg (Fin x) = Fin (- x)"

text \<open>The binary operators \<open>-\<close>, \<open>/\<close> and \<open>*\<close>.\<close>

fun jssub :: "jsnum \<Rightarrow> jsnum \<Rightarrow> jsnum" where
  "jssub NaN b = NaN"
| "jssub a NaN = NaN"
| "jssub (Fin x) (Fin y) = Fin (x - y)"
| "jssub PInf PInf = NaN"
| "jssub NInf NInf = NaN"
| "jssub PInf b = PInf"
| "jssub NInf b = NInf"
| "jssub (Fin x) b = jsneg b"

fun jsdiv :: "jsnum \<Rightarrow> jsnum \<Rightarrow> jsnum" where
  "jsdiv NaN b = NaN"
| "jsdiv a NaN = NaN"
| "jsdiv (Fin x) (Fin y) =
     (if y = 0 then (if x = 0 then NaN else if 0 < x then PInf else NInf)
      else Fin (x / y))"
| "jsdiv (Fin x) b = Fin 0"
| "jsdiv a (Fin y) = (if 0 \<le> y then a else jsneg a)"
| "jsdiv a b = NaN"

fun jsmul :: "jsnum \<Rightarrow> jsnum \<Rightarrow> jsnum" where
  "jsmul NaN b = NaN"
| "jsmul a NaN = NaN"
| "jsmul (Fin x) (Fin y) = Fin (x * y)"
| "jsmul (Fin x) b = (if x = 0 then NaN else if 0 < x then b else jsneg b)"
| "jsmul a (Fin y) = (if y = 0 then NaN else if 0 < y then a else jsneg a)"
| "jsmul PInf b = b"
| "jsmul NInf b = jsneg b"

text \<open>
  A value read from a parsed body where the interface declares a number. The
  declared type is erased at run time, so the property may also be missing
  (\<open>undefined\<close>) or \<open>null\<close>. \<open>to_number\<close> is the conversion the arithmetic
  operators apply to an operand: \<open>undefined\<close> becomes \<open>NaN\<close>, \<open>null\<close> becomes 0.
\<close>

datatype jsval = Undefined | Null | Num jsnum

fun to_number :: "jsval \<Rightarrow> jsnum" where
  "to_number Undefined = NaN"
| "to_number Null = Fin 0"
| "to_number (Num x) = x"

text \<open>
  The operator \<open>||\<close>: the left operand when it is truthy, the right operand
  otherwise. The left operand is an optional number, where \<open>None\<close> stands for a
  missing or \<open>null\<close> property: both are falsy, and a falsy left operand is
  never the result. \<open>or_else\<close> is \<open>a || b\<close> with an optional number on the right,
  \<open>or_val\<close> is \<open>a || p\<close> with any value on the right.
\<close>

definition or_else :: "jsnum option \<Rightarrow> jsnum option \<Rightarrow> jsnum option" where
  "or_else a b = (case a of None \<Rightarrow> b | Some x \<Rightarrow> if truthy x then Some x else b)"

definition or_val :: "jsnum option \<Rightarrow> jsval \<Rightarrow> jsval" where
  "or_val a p = (case a of None \<Rightarrow> p | Some x \<Rightarrow> if truthy x then Num x else p)"

subsection \<open>Strings\<close>

text \<open>\<open>msg.includes(p)\<close>: \<open>p\<close> occurs in \<open>msg\<close> as a contiguous substring.\<close>

fun str_includes :: "string \<Rightarrow> string \<Rightarrow> bool" where
  "str_includes [] p = (p = [])"
| "str_includes (c # cs) p = (prefix p (c # cs) \<or> str_includes cs p)"

text \<open>The decimal rendering of a status code inside a template literal.\<close>

definition digit_char :: "nat \<Rightarrow> char" where
  "digit_char d = ''0123456789'' ! d"

fun show_nat :: "nat \<Rightarrow> string" where
  "show_nat n = (if n < 10 then [digit_char n] else show_nat (n div 10) @ [digit_char (n mod 10)])"

declare show_nat.simps [simp del]

subsection \<open>Data model\<close>

text \<open>
  A fetch target is \<open>{symbol, name, display}\<close>. \<open>MarketData\<close> (declared in
  \<open>@/types\<close>) extends it with \<open>price\<close> and \<open>change\<close>, each declared a number or
  \<open>null\<close>; at run time \<open>price\<close> holds whatever \<open>fetchStockQuote\<close> read from the
  body, so both fields are values here. \<open>fetchStockQuote\<close> may add the optional
  flag \<open>rateLimited\<close> (\<open>None\<close>: the property is absent).
\<close>

record target =
  symbol :: string
  name :: string
  display :: string

record quote = target +
  price :: jsval
  change :: jsval
  rateLimited :: "bool option"

text \<open>
  \<open>YahooFinanceResponse\<close>. The source guards against a missing first result
  and a missing \<open>meta\<close> (\<open>data.chart.result[0]?.meta\<close>, \<open>!meta\<close>), so \<open>meta\<close> is
  optional here. It reads \<open>meta.regularMarketPrice\<close> unchecked, so that field is
  a value that may be a number, \<open>null\<close> or missing. The two previous-close
  fields pass through \<open>||\<close>; \<open>None\<close> stands for a missing or \<open>null\<close> one.
\<close>

record yahoo_meta =
  regularMarketPrice :: jsval
  chartPreviousClose :: "jsnum option"
  previousClose :: "jsnum option"

record yahoo_result =
  meta :: "yahoo_meta option"

record yahoo_chart =
  result :: "yahoo_result list"

record YahooFinanceResponse =
  chart :: yahoo_chart

text \<open>
  What \<open>fetchWithProxy\<close> (an external collaborator) answers. A rejected
  promise is \<open>Inl msg\<close>, where \<open>msg\<close> is \<open>String(e)\<close> of the thrown value. A
  response has a status, the \<open>ok\<close> property and the outcome of
  \<open>response.json()\<close>: \<open>Inl msg\<close> when parsing throws or when the parsed body
  has no readable \<open>chart.result\<close> (a TypeError raised inside the same
  \<open>try\<close>), \<open>Inr data\<close> for a body whose \<open>chart.result\<close> is a list.
\<close>

record 'a response =
  status :: nat
  ok :: bool
  json :: "string + 'a"

type_synonym 'a transport = "string + 'a response"

text \<open>
  The environment: \<open>clock k\<close> is the value of the \<open>k\<close>-th call of \<open>Date.now()\<close>
  (milliseconds), \<open>net k s\<close> is the outcome of the \<open>k\<close>-th request, issued for
  symbol \<open>s\<close>.
\<close>

record env =
  clock :: "nat \<Rightarrow> int"
  net :: "nat \<Rightarrow> string \<Rightarrow> YahooFinanceResponse transport"

text \<open>
  The state: the module variables \<open>rateLimitedUntil\<close> and
  \<open>lastSuccessfulResults\<close>, and three logs of effects: how many times the
  clock was read, the symbols passed to \<open>fetchWithProxy\<close> in order, and the
  arguments of the \<open>onBatch\<close> invocations in order.
\<close>

record state =
  rateLimitedUntil :: int
  lastSuccessfulResults :: "quote list"
  ticks :: nat
  requests :: "string list"
  onBatch_calls :: "quote list list"

definition initial_state :: state where
  "initial_state = \<lparr>rateLimitedUntil = 0, lastSuccessfulResults = [], ticks = 0,
     requests = [], onBatch_calls = []\<rparr>"

subsection \<open>Rate-limit guard\<close>

definition COOLDOWN_MS :: int where
  "COOLDOWN_MS = 5 * 60 * 1000"

definition Date_now :: "env \<Rightarrow> state \<Rightarrow> int \<times> state" where
  "Date_now e st = (clock e (ticks st), st\<lparr>ticks := Suc (ticks st)\<rparr>)"

text \<open>
  \<open>isRateLimited\<close> reads the clock for the comparison and, when limited, once
  more for the logged remaining time.
\<close>

definition isRateLimited :: "env \<Rightarrow> state \<Rightarrow> bool \<times> state" where
  "isRateLimited e st =
     (case Date_now e st of (now, st1) \<Rightarrow>
        if now < rateLimitedUntil st1
        then (case Date_now e st1 of (now2, st2) \<Rightarrow> (True, st2))
        else (False, st1))"

definition triggerRateLimit :: "env \<Rightarrow> state \<Rightarrow> state" where
  "triggerRateLimit e st =
     (case Date_now e st of (now, st1) \<Rightarrow> st1\<lparr>rateLimitedUntil := now + COOLDOWN_MS\<rparr>)"

subsection \<open>Single-quote fetch\<close>

text \<open>
  \<open>fetchStockQuote\<close> is an async function with one suspension point that
  matters, \<open>await fetchWithProxy(url)\<close>. The model splits it there.

  \<open>fetchStockQuote_start\<close> is the synchronous part (lines 48 to 54): the guard
  check, then the request. It answers \<open>Inl q\<close> when the call returns \<open>q\<close>
  without a request and \<open>Inr k\<close> when it issued request number \<open>k\<close>. Building
  the URL (\<open>API_URLS.yahooFinance\<close>, from \<open>@/config\<close>) and calling
  \<open>fetchWithProxy\<close> are taken to hand back a promise; a request that fails is a
  rejected promise, handled after the suspension.
\<close>

definition fetchStockQuote_start ::
    "env \<Rightarrow> state \<Rightarrow> string \<Rightarrow> string \<Rightarrow> string \<Rightarrow> (quote + nat) \<times> state" where
  "fetchStockQuote_start e st smb nm disp =
     (case isRateLimited e st of (limited, st1) \<Rightarrow>
        if limited
        then (Inl \<lparr>symbol = smb, name = nm, display = disp, price = Null, change = Null,
                rateLimited = None\<rparr>, st1)
        else (Inr (length (requests st1)), st1\<lparr>requests := requests st1 @ [smb]\<rparr>))"

text \<open>
  The body of the \<open>try\<close> once a response has arrived (lines 56 to 73).
  \<open>Inl msg\<close> is a thrown value with \<open>String(e) = msg\<close>, \<open>Inr q\<close> a returned quote.
\<close>

definition fetchStockQuote_response ::
    "env \<Rightarrow> state \<Rightarrow> string \<Rightarrow> string \<Rightarrow> string \<Rightarrow> YahooFinanceResponse response
      \<Rightarrow> (string + quote) \<times> state" where
  "fetchStockQuote_response e st smb nm disp resp =
     (if status resp = 429
      then (Inr \<lparr>symbol = smb, name = nm, display = disp, price = Null, change = Null,
              rateLimited = Some True\<rparr>, triggerRateLimit e st)
      else if \<not> ok resp then (Inl (''Error: HTTP '' @ show_nat (status resp)), st)
      else (case json resp of
          Inl msg \<Rightarrow> (Inl msg, st)
        | Inr data \<Rightarrow>
            (case (case result (chart data) of [] \<Rightarrow> None | r # _ \<Rightarrow> meta r) of
               None \<Rightarrow> (Inr \<lparr>symbol = smb, name = nm, display = disp, price = Null,
                          change = Null, rateLimited = None\<rparr>, st)
             | Some m \<Rightarrow>
                 (let price = regularMarketPrice m;
                      prevClose = or_val (or_else (chartPreviousClose m) (previousClose m)) price;
                      change = jsmul (jsdiv (jssub (to_number price) (to_number prevClose))
                                 (to_number prevClose)) (Fin 100)
                  in (Inr \<lparr>symbol = smb, name = nm, display = disp, price = price,
                        change = Num change, rateLimited = None\<rparr>, st)))))"

text \<open>The \<open>catch\<close> block (lines 74 to 82), given \<open>msg = String(e)\<close>.\<close>

definition fetchStockQuote_catch ::
    "env \<Rightarrow> state \<Rightarrow> string \<Rightarrow> string \<Rightarrow> string \<Rightarrow> string \<Rightarrow> quote \<times> state" where
  "fetchStockQuote_catch e st smb nm disp msg =
     (if str_includes msg ''429''
      then (\<lparr>symbol = smb, name = nm, display = disp, price = Null, change = Null,
              rateLimited = Some True\<rparr>, triggerRateLimit e st)
      else (\<lparr>symbol = smb, name = nm, display = disp, price = Null, change = Null,
              rateLimited = None\<rparr>, st))"

text \<open>
  \<open>fetchStockQuote_resume\<close> is the rest of the call after the suspension: the
  \<open>try\<close> with its \<open>catch\<close>, given what the transport answered.
\<close>

definition fetchStockQuote_resume ::
    "env \<Rightarrow> state \<Rightarrow> string \<Rightarrow> string \<Rightarrow> string \<Rightarrow> YahooFinanceResponse transport
      \<Rightarrow> quote \<times> state" where
  "fetchStockQuote_resume e st smb nm disp tr =
     (case (case tr of Inl msg \<Rightarrow> (Inl msg, st)
                     | Inr resp \<Rightarrow> fetchStockQuote_response e st smb nm disp resp) of
        (Inl msg, st1) \<Rightarrow> fetchStockQuote_catch e st1 smb nm disp msg
      | (Inr q, st1) \<Rightarrow> (q, st1))"

text \<open>One call of \<open>fetchStockQuote\<close>, awaited with nothing else in flight.\<close>

definition fetchStockQuote ::
    "env \<Rightarrow> state \<Rightarrow> string \<Rightarrow> string \<Rightarrow> string \<Rightarrow> quote \<times> state" where
  "fetchStockQuote e st smb nm disp =
     (case fetchStockQuote_start e st smb nm disp of
        (Inl q, st1) \<Rightarrow> (q, st1)
      | (Inr k, st1) \<Rightarrow> fetchStockQuote_resume e st1 smb nm disp (net e k smb))"

subsection \<open>Batch fetch\<close>

text \<open>
  \<open>Promise.all(batch.map(s => fetchStockQuote(...)))\<close>: \<open>map\<close> runs the
  synchronous part of every call in batch order before any response is
  handled (\<open>start_all\<close>); the calls then resume as their responses arrive
  (\<open>settle_all\<close>) and the results are joined in batch order. A resumed call
  touches the state only through \<open>triggerRateLimit\<close>, which reads the next
  clock value whichever call it belongs to, so the order of arrival changes
  neither the results nor the final state; the model resumes in batch order.
\<close>

fun start_all :: "env \<Rightarrow> state \<Rightarrow> target list \<Rightarrow> ((quote + nat) \<times> target) list \<times> state" where
  "start_all e st [] = ([], st)"
| "start_all e st (s # ss) =
     (case fetchStockQuote_start e st (symbol s) (name s) (display s) of (p, st1) \<Rightarrow>
        (case start_all e st1 ss of (ps, st2) \<Rightarrow> ((p, s) # ps, st2)))"

fun settle_all :: "env \<Rightarrow> state \<Rightarrow> ((quote + nat) \<times> target) list \<Rightarrow> quote list \<times> state" where
  "settle_all e st [] = ([], st)"
| "settle_all e st ((p, s) # ps) =
     (case (case p of Inl q \<Rightarrow> (q, st)
                    | Inr k \<Rightarrow> fetchStockQuote_resume e st (symbol s) (name s) (display s)
                                (net e k (symbol s))) of (q, st1) \<Rightarrow>
        (case settle_all e st1 ps of (qs, st2) \<Rightarrow> (q # qs, st2)))"

definition fetchBatch :: "env \<Rightarrow> state \<Rightarrow> target list \<Rightarrow> quote list \<times> state" where
  "fetchBatch e st batch = (case start_all e st batch of (ps, st1) \<Rightarrow> settle_all e st1 ps)"

text \<open>
  The options: \<open>batchSize\<close> and \<open>delayMs\<close> are optional numbers; \<open>onBatch\<close> says
  whether a callback was supplied. The callback is opaque: an invocation is
  recorded with its argument in \<open>onBatch_calls\<close>.
\<close>

record options =
  batchSize :: "nat option"
  delayMs :: "nat option"
  onBatch :: bool

definition call_onBatch :: "options \<Rightarrow> quote list \<Rightarrow> state \<Rightarrow> state" where
  "call_onBatch opts arg st =
     (if onBatch opts then st\<lparr>onBatch_calls := onBatch_calls st @ [arg]\<rparr> else st)"

text \<open>\<open>r.rateLimited\<close> as a condition: true only for a flag that is present and true.\<close>

definition flagged :: "quote \<Rightarrow> bool" where
  "flagged r = (rateLimited r = Some True)"

text \<open>
  The loop over the batches (lines 109 to 136), from the state and the
  \<open>results\<close> accumulated so far; a \<open>break\<close> ends the recursion. It returns
  \<open>results\<close> and the state at loop exit. The pause between batches (lines 132
  to 135, \<open>delayMs\<close> plus a random jitter) only lets time pass: the next clock
  reading accounts for it. Lists are values here: the array handed to the
  callback and to the caller is not mutated by them.
\<close>

fun fetchLoop ::
    "env \<Rightarrow> options \<Rightarrow> state \<Rightarrow> quote list \<Rightarrow> target list list \<Rightarrow> quote list \<times> state" where
  "fetchLoop e opts st results [] = (results, st)"
| "fetchLoop e opts st results (batch # rest) =
     (case isRateLimited e st of (limited, st1) \<Rightarrow>
        if limited then (results, st1)
        else (case fetchBatch e st1 batch of (batchResults, st2) \<Rightarrow>
          if list_ex flagged batchResults then (results, st2)
          else (let results' = results @ batchResults;
                    visibleResults = filter (\<lambda>r. price r \<noteq> Null) results'
                in fetchLoop e opts (call_onBatch opts visibleResults st2) results' rest)))"

text \<open>
  \<open>fetchMultipleStocks\<close>. The utility \<open>chunkArray\<close> (from \<open>@/utils\<close>) is not
  among the sources; it is the parameter \<open>chunk\<close>.
\<close>

definition fetchMultipleStocks ::
    "(target list \<Rightarrow> nat \<Rightarrow> target list list) \<Rightarrow> env \<Rightarrow> state \<Rightarrow> target list \<Rightarrow> options
      \<Rightarrow> quote list \<times> state" where
  "fetchMultipleStocks chunk e st symbols opts =
     (case isRateLimited e st of (limited, st1) \<Rightarrow>
        if limited
        then (if length (lastSuccessfulResults st1) > 0
              then (lastSuccessfulResults st1,
                    call_onBatch opts (lastSuccessfulResults st1) st1)
              else ([], st1))
        else (let bs = (case batchSize opts of None \<Rightarrow> 2 | Some b \<Rightarrow> b);
                  batches = chunk symbols bs
              in (case fetchLoop e opts st1 [] batches of (results, st2) \<Rightarrow>
                (let successful = filter (\<lambda>r. price r \<noteq> Null) results
                 in (successful,
                     if length successful > 0
                     then st2\<lparr>lastSuccessfulResults := successful\<rparr> else st2)))))"

text \<open>
  Modelled from the spec: \<open>chunkArray\<close> of \<open>@/utils\<close>, which is not among the
  sources. The spec has it partition the input into consecutive chunks of the
  batch size, in input order (5 symbols at size 2 give chunks of 2, 2 and 1).
  The spec is silent on size 0; this definition gives no chunk then.
\<close>

function chunkArray :: "'a list \<Rightarrow> nat \<Rightarrow> 'a list list" where
  "chunkArray xs n =
     (if n = 0 \<or> xs = [] then [] else take n xs # chunkArray (drop n xs) n)"
  by pat_completeness auto
termination
  by (relation "measure (\<lambda>(xs, n). length xs)") auto

declare chunkArray.simps [simp del]

subsection \<open>Crypto fetch\<close>

text \<open>
  \<open>CryptoData\<close> (declared in \<open>@/types\<close>) and one entry of \<open>CoinGeckoResponse\<close>.
  The source reads the entry through \<open>?.\<close> and \<open>??\<close>, so each field is optional
  here (\<open>None\<close>: \<open>undefined\<close> or \<open>null\<close>).
\<close>

record CryptoData =
  crypto_name :: string
  crypto_symbol :: string
  crypto_price :: jsnum
  crypto_change :: jsnum

record coin_data =
  usd :: "jsnum option"
  usd_24h_change :: "jsnum option"

record crypto_info =
  info_name :: string
  info_symbol :: string

text \<open>
  \<open>fetchCrypto\<close>. \<open>CRYPTO_MAP\<close> (from \<open>@/config\<close>) is the parameter \<open>crypto_map\<close>,
  given as the list \<open>Object.entries\<close> yields. The parsed body is a map from
  ids to entries. The function issues one request and touches no module
  state; \<open>tr\<close> is what the transport answered.
\<close>

definition fetchCrypto_try ::
    "(string \<times> crypto_info) list \<Rightarrow> (string \<rightharpoonup> coin_data) transport
      \<Rightarrow> string + CryptoData list" where
  "fetchCrypto_try crypto_map tr =
     (case tr of
        Inl msg \<Rightarrow> Inl msg
      | Inr resp \<Rightarrow>
          if \<not> ok resp then Inl (''Error: HTTP '' @ show_nat (status resp))
          else (case json resp of
              Inl msg \<Rightarrow> Inl msg
            | Inr data \<Rightarrow>
                Inr (map (\<lambda>(id, info).
                       \<lparr>crypto_name = info_name info, crypto_symbol = info_symbol info,
                        crypto_price = (case Option.bind (data id) usd of
                                          None \<Rightarrow> Fin 0 | Some v \<Rightarrow> v),
                        crypto_change = (case Option.bind (data id) usd_24h_change of
                                           None \<Rightarrow> Fin 0 | Some v \<Rightarrow> v)\<rparr>)
                     crypto_map)))"

definition fetchCrypto ::
    "(string \<times> crypto_info) list \<Rightarrow> (string \<rightharpoonup> coin_data) transport \<Rightarrow> CryptoData list" where
  "fetchCrypto crypto_map tr =
     (case fetchCrypto_try crypto_map tr of Inl msg \<Rightarrow> [] | Inr qs \<Rightarrow> qs)"

subsection \<open>The specification's reading of the percent change\<close>

text \<open>
  The percent change of a price against a reference, as the specification
  writes it: (price - reference) / reference * 100.
\<close>

definition percent_change :: "jsnum \<Rightarrow> jsnum \<Rightarrow> jsnum" where
  "percent_change p r = jsmul (jsdiv (jssub p r) r) (Fin 100)"

text \<open>
  The reference by presence, in the specification's words: the
  chart-specific previous close when that field is present, otherwise the
  generic one when present, otherwise the price.
\<close>

definition reference_if_present :: "yahoo_meta \<Rightarrow> jsnum" where
  "reference_if_present m =
     (case chartPreviousClose m of Some c \<Rightarrow> c
      | None \<Rightarrow> (case previousClose m of Some g \<Rightarrow> g
                 | None \<Rightarrow> to_number (regularMarketPrice m)))"

text \<open>
  The reference by usability: a field counts only when it is present and
  truthy (neither \<open>0\<close> nor \<open>NaN\<close>).
\<close>

definition usable :: "jsnum option \<Rightarrow> bool" where
  "usable v = (case v of None \<Rightarrow> False | Some x \<Rightarrow> truthy x)"

definition reference_if_usable :: "yahoo_meta \<Rightarrow> jsnum" where
  "reference_if_usable m =
     (if usable (chartPreviousClose m) then the (chartPreviousClose m)
      else if usable (previousClose m) then the (previousClose m)
      else to_number (regularMarketPrice m))"

subsection \<open>Predicates used in the proofs\<close>

text \<open>
  The \<open>meta\<close> a fetch gets to read: the transport answered with a response
  that is not 429 and is ok, its body parsed, and the first result has a
  \<open>meta\<close>. Every other outcome gives \<open>None\<close>.
\<close>

definition parsed_meta :: "YahooFinanceResponse transport \<Rightarrow> yahoo_meta option" where
  "parsed_meta tr =
     (case tr of
        Inl msg \<Rightarrow> None
      | Inr resp \<Rightarrow>
          if status resp = 429 then None
          else if ok resp
          then (case json resp of
              Inl msg \<Rightarrow> None
            | Inr data \<Rightarrow> (case result (chart data) of [] \<Rightarrow> None | r # rs \<Rightarrow> meta r))
          else None)"

text \<open>
  The clock never runs backwards; the stored expiry is at most one cooldown
  window ahead of the current clock reading (it is the initial 0 or was set
  by a trigger at an earlier or equal time).
\<close>

definition monotone_clock :: "env \<Rightarrow> bool" where
  "monotone_clock e \<longleftrightarrow> (\<forall>i j. i \<le> j \<longrightarrow> clock e i \<le> clock e j)"

definition expiry_ok :: "env \<Rightarrow> state \<Rightarrow> bool" where
  "expiry_ok e st \<longleftrightarrow> rateLimitedUntil st \<le> clock e (ticks st) + COOLDOWN_MS"

text \<open>
  What one quote fetch may do to the state: it leaves the cache and the
  callback log alone and, under a monotone clock, never lowers the expiry.
  \<open>loop_step\<close> is the same without the callback log, for the batch loop.
\<close>

definition quote_step :: "env \<Rightarrow> state \<Rightarrow> state \<Rightarrow> bool" where
  "quote_step e st st' \<longleftrightarrow>
     lastSuccessfulResults st' = lastSuccessfulResults st \<and>
     onBatch_calls st' = onBatch_calls st \<and>
     (monotone_clock e \<longrightarrow> expiry_ok e st \<longrightarrow>
        expiry_ok e st' \<and> rateLimitedUntil st \<le> rateLimitedUntil st')"

definition loop_step :: "env \<Rightarrow> state \<Rightarrow> state \<Rightarrow> bool" where
  "loop_step e st st' \<longleftrightarrow>
     lastSuccessfulResults st' = lastSuccessfulResults st \<and>
     (monotone_clock e \<longrightarrow> expiry_ok e st \<longrightarrow>
        expiry_ok e st' \<and> rateLimitedUntil st \<le> rateLimitedUntil st')"

subsection \<open>Sample inputs\<close>

text \<open>
  An environment whose clock always reads \<open>t\<close>, and one whose clock advances
  by a second at every reading; the transport answers with the given function
  of the symbol.
\<close>

definition env_at :: "int \<Rightarrow> (string \<Rightarrow> YahooFinanceResponse transport) \<Rightarrow> env" where
  "env_at t answer = \<lparr>clock = (\<lambda>k. t), net = (\<lambda>k s. answer s)\<rparr>"

definition env_ticking :: "(string \<Rightarrow> YahooFinanceResponse transport) \<Rightarrow> env" where
  "env_ticking answer = \<lparr>clock = (\<lambda>k. 1000 * int k), net = (\<lambda>k s. answer s)\<rparr>"

definition offline :: "string \<Rightarrow> YahooFinanceResponse transport" where
  "offline s = Inl ''TypeError: Failed to fetch''"

text \<open>A successful response carrying the given \<open>meta\<close>, and a 429 response.\<close>

definition ok_response :: "yahoo_meta \<Rightarrow> YahooFinanceResponse transport" where
  "ok_response m =
     Inr \<lparr>status = 200, ok = True,
          json = Inr \<lparr>chart = \<lparr>result = [\<lparr>meta = Some m\<rparr>]\<rparr>\<rparr>\<rparr>"

definition too_many_requests :: "YahooFinanceResponse transport" where
  "too_many_requests = Inr \<lparr>status = 429, ok = False, json = Inl ''SyntaxError''\<rparr>"

definition tgt :: "string \<Rightarrow> target" where
  "tgt s = \<lparr>symbol = s, name = s, display = s\<rparr>"

text \<open>
  Five symbols in three chunks of the default size 2. Every symbol is quoted
  at 150 against a previous close of 100, except \<open>D\<close>, which is answered 429.
\<close>

definition demo_answer :: "string \<Rightarrow> YahooFinanceResponse transport" where
  "demo_answer s =
     (if s = ''D'' then too_many_requests
      else ok_response \<lparr>regularMarketPrice = Num (Fin 150), chartPreviousClose = Some (Fin 100),
             previousClose = None\<rparr>)"

definition demo_quote :: "string \<Rightarrow> quote" where
  "demo_quote s = \<lparr>symbol = s, name = s, display = s, price = Num (Fin 150),
     change = Num (Fin 50), rateLimited = None\<rparr>"

definition demo_options :: options where
  "demo_options = \<lparr>batchSize = None, delayMs = None, onBatch = True\<rparr>"

definition demo_symbols :: "target list" where
  "demo_symbols = map tgt [''A'', ''B'', ''C'', ''D'', ''E'']"

definition chunk_CD :: "target list" where
  "chunk_CD = [tgt ''C'', tgt ''D'']"

definition chunk_E :: "target list" where
  "chunk_E = [tgt ''E'']"

definition quotes_AB :: "quote list" where
  "quotes_AB = [demo_quote ''A'', demo_quote ''B'']"

text \<open>The state in which the demo run enters the second iteration of the loop.\<close>

definition before_second_chunk :: state where
  "before_second_chunk = \<lparr>rateLimitedUntil = 0, lastSuccessfulResults = [], ticks = 4,
     requests = [''A'', ''B''], onBatch_calls = [quotes_AB]\<rparr>"

text \<open>A state inside a cooldown, and one outside it, each with one cached quote.\<close>

definition limited_state :: state where
  "limited_state = \<lparr>rateLimitedUntil = 300000, lastSuccessfulResults = [demo_quote ''A''],
     ticks = 0, requests = [], onBatch_calls = []\<rparr>"

definition cached_state :: state where
  "cached_state = \<lparr>rateLimitedUntil = 0, lastSuccessfulResults = [demo_quote ''A''],
     ticks = 0, requests = [], onBatch_calls = []\<rparr>"

text \<open>
  Two bodies with a previous close of 100 and no usable price: in the first
  \<open>regularMarketPrice\<close> is missing, in the second it is \<open>null\<close>.
\<close>

definition meta_no_price :: yahoo_meta where
  "meta_no_price = \<lparr>regularMarketPrice = Undefined, chartPreviousClose = Some (Fin 100),
     previousClose = None\<rparr>"

definition meta_null_price :: yahoo_meta where
  "meta_null_price = \<lparr>regularMarketPrice = Null, chartPreviousClose = Some (Fin 100),
     previousClose = None\<rparr>"

definition answer_no_price :: "string \<Rightarrow> YahooFinanceResponse transport" where
  "answer_no_price s = ok_response meta_no_price"

definition answer_null_price :: "string \<Rightarrow> YahooFinanceResponse transport" where
  "answer_null_price s = ok_response meta_null_price"

text \<open>A response whose chart-specific previous close is present and 0.\<close>

definition meta_zero_chart :: yahoo_meta where
  "meta_zero_chart = \<lparr>regularMarketPrice = Num (Fin 150), chartPreviousClose = Some (Fin 0),
     previousClose = Some (Fin 100)\<rparr>"

text \<open>A crypto configuration of two ids and a body that has only the first.\<close>

definition sample_crypto_map :: "(string \<times> crypto_info) list" where
  "sample_crypto_map =
     [(''bitcoin'', \<lparr>info_name = ''Bitcoin'', info_symbol = ''BTC''\<rparr>),
      (''ethereum'', \<lparr>info_name = ''Ethereum'', info_symbol = ''ETH''\<rparr>)]"

definition sample_crypto_body :: "string \<rightharpoonup> coin_data" where
  "sample_crypto_body =
     [''bitcoin'' \<mapsto> \<lparr>usd = Some (Fin 50000), usd_24h_change = Some (Fin 2)\<rparr>]"

definition sample_crypto_response :: "(string \<rightharpoonup> coin_data) transport" where
  "sample_crypto_response = Inr \<lparr>status = 200, ok = True, json = Inr sample_crypto_body\<rparr>"

section \<open>Properties\<close>

subsection \<open>The guard\<close>

lemma isRateLimited_fst: "fst (isRateLimited e st) = (clock e (ticks st) < rateLimitedUntil st)"
  by (simp add: isRateLimited_def Date_now_def)

lemma isRateLimited_snd:
  "snd (isRateLimited e st) =
     st\<lparr>ticks := (if clock e (ticks st) < rateLimitedUntil st then Suc (Suc (ticks st))
                  else Suc (ticks st))\<rparr>"
  by (simp add: isRateLimited_def Date_now_def)

lemma triggerRateLimit_eq:
  "triggerRateLimit e st =
     st\<lparr>ticks := Suc (ticks st), rateLimitedUntil := clock e (ticks st) + COOLDOWN_MS\<rparr>"
  by (simp add: triggerRateLimit_def Date_now_def)

text \<open>
  Claim C3. The guard is triggered in state \<open>st\<close>, where the clock reads
  \<open>t = clock e (ticks st)\<close>. In any later state \<open>st'\<close> that still holds the expiry
  this trigger stored, \<open>isRateLimited\<close> reading the time \<open>t' = clock e' (ticks st')\<close>
  answers true exactly when \<open>t' < t + 300000\<close>: limited at every time strictly
  before \<open>t + 300000\<close>, not limited at and after it.
\<close>

theorem isRateLimited_after_trigger:
  "rateLimitedUntil st' = rateLimitedUntil (triggerRateLimit e st) \<Longrightarrow>
   fst (isRateLimited e' st') = (clock e' (ticks st') < clock e (ticks st) + 300000)"
  by (simp add: isRateLimited_def triggerRateLimit_def Date_now_def COOLDOWN_MS_def)

text \<open>Triggered at 0: limited at 299999, not limited at 300000.\<close>

theorem isRateLimited_after_trigger_witness:
  "fst (isRateLimited (env_at 299999 offline) (triggerRateLimit (env_at 0 offline) initial_state))
   \<and> \<not> fst (isRateLimited (env_at 300000 offline)
          (triggerRateLimit (env_at 0 offline) initial_state))"
  using isRateLimited_after_trigger
      [of "triggerRateLimit (env_at 0 offline) initial_state" "env_at 0 offline" initial_state
        "env_at 299999 offline"]
    isRateLimited_after_trigger
      [of "triggerRateLimit (env_at 0 offline) initial_state" "env_at 0 offline" initial_state
        "env_at 300000 offline"]
  by (simp add: env_at_def)

subsection \<open>What a fetch does to the state\<close>

lemma quote_step_refl: "quote_step e st st"
  by (simp add: quote_step_def)

lemma quote_step_trans: "quote_step e a b \<Longrightarrow> quote_step e b c \<Longrightarrow> quote_step e a c"
  by (auto simp: quote_step_def)

lemma monotone_clockD: "monotone_clock e \<Longrightarrow> i \<le> j \<Longrightarrow> clock e i \<le> clock e j"
  by (simp add: monotone_clock_def)

lemma step_isRateLimited: "quote_step e st (snd (isRateLimited e st))"
proof -
  have "clock e (ticks st) \<le> clock e (Suc (ticks st))"
    and "clock e (ticks st) \<le> clock e (Suc (Suc (ticks st)))" if "monotone_clock e"
    using that by (simp_all add: monotone_clockD)
  then show ?thesis
    by (auto simp: quote_step_def isRateLimited_snd expiry_ok_def)
qed

lemma step_trigger: "quote_step e st (triggerRateLimit e st)"
proof -
  have "clock e (ticks st) \<le> clock e (Suc (ticks st))" if "monotone_clock e"
    using that by (simp add: monotone_clockD)
  then show ?thesis
    by (auto simp: quote_step_def triggerRateLimit_eq expiry_ok_def)
qed

lemma step_requests: "quote_step e st (st\<lparr>requests := rs\<rparr>)"
  by (simp add: quote_step_def expiry_ok_def)

lemma step_start: "quote_step e st (snd (fetchStockQuote_start e st s n d))"
proof -
  have "quote_step e (snd (isRateLimited e st))
          ((snd (isRateLimited e st))\<lparr>requests := requests (snd (isRateLimited e st)) @ [s]\<rparr>)"
    by (rule step_requests)
  with step_isRateLimited [of e st] show ?thesis
    by (auto simp: fetchStockQuote_start_def split_beta intro: quote_step_trans)
qed

lemma step_response: "quote_step e st (snd (fetchStockQuote_response e st s n d r))"
  by (simp add: fetchStockQuote_response_def quote_step_refl step_trigger Let_def
      split: sum.splits option.splits list.splits)

lemma step_catch: "quote_step e st (snd (fetchStockQuote_catch e st s n d m))"
  by (simp add: fetchStockQuote_catch_def quote_step_refl step_trigger)

lemma step_resume: "quote_step e st (snd (fetchStockQuote_resume e st s n d tr))"
proof (cases tr)
  case (Inl msg)
  then show ?thesis
    by (simp add: fetchStockQuote_resume_def step_catch)
next
  case (Inr resp)
  obtain r st1 where r: "fetchStockQuote_response e st s n d resp = (r, st1)"
    by (cases "fetchStockQuote_response e st s n d resp")
  then have f1: "quote_step e st st1"
    using step_response [of e st s n d resp] by simp
  show ?thesis
  proof (cases r)
    case (Inl msg)
    then show ?thesis
      using Inr r f1 step_catch [of e st1 s n d msg]
      by (simp add: fetchStockQuote_resume_def) (rule quote_step_trans)
  next
    case (Inr q)
    then show ?thesis
      using \<open>tr = Inr resp\<close> r f1 by (simp add: fetchStockQuote_resume_def)
  qed
qed

lemma step_fetchStockQuote: "quote_step e st (snd (fetchStockQuote e st s n d))"
proof -
  obtain p st1 where p: "fetchStockQuote_start e st s n d = (p, st1)"
    by (cases "fetchStockQuote_start e st s n d")
  then have f1: "quote_step e st st1"
    using step_start [of e st s n d] by simp
  show ?thesis
  proof (cases p)
    case (Inl q)
    then show ?thesis using p f1 by (simp add: fetchStockQuote_def)
  next
    case (Inr k)
    then show ?thesis
      using p f1 step_resume [of e st1 s n d "net e k s"]
      by (simp add: fetchStockQuote_def) (rule quote_step_trans)
  qed
qed

lemma step_start_all: "quote_step e st (snd (start_all e st ss))"
proof (induction ss arbitrary: st)
  case Nil
  show ?case by (simp add: quote_step_refl)
next
  case (Cons s ss)
  obtain p st1 where p: "fetchStockQuote_start e st (symbol s) (name s) (display s) = (p, st1)"
    by (cases "fetchStockQuote_start e st (symbol s) (name s) (display s)")
  then have "quote_step e st st1"
    using step_start [of e st "symbol s" "name s" "display s"] by simp
  moreover have "quote_step e st1 (snd (start_all e st1 ss))"
    by (rule Cons.IH)
  ultimately show ?case
    using p by (auto simp: split_beta intro: quote_step_trans)
qed

lemma step_settle_all: "quote_step e st (snd (settle_all e st ps))"
proof (induction ps arbitrary: st)
  case Nil
  show ?case by (simp add: quote_step_refl)
next
  case (Cons a ps)
  obtain p s where a: "a = (p, s)" by (cases a)
  show ?case
  proof (cases p)
    case (Inl q)
    then show ?thesis
      using a Cons.IH [of st] by (simp add: split_beta)
  next
    case (Inr k)
    obtain q st1 where q:
      "fetchStockQuote_resume e st (symbol s) (name s) (display s) (net e k (symbol s)) = (q, st1)"
      by (cases "fetchStockQuote_resume e st (symbol s) (name s) (display s) (net e k (symbol s))")
    then have "quote_step e st st1"
      using step_resume [of e st "symbol s" "name s" "display s" "net e k (symbol s)"] by simp
    moreover have "quote_step e st1 (snd (settle_all e st1 ps))"
      by (rule Cons.IH)
    ultimately show ?thesis
      using a Inr q by (auto simp: split_beta intro: quote_step_trans)
  qed
qed

lemma step_fetchBatch: "quote_step e st (snd (fetchBatch e st batch))"
proof -
  obtain ps st1 where ps: "start_all e st batch = (ps, st1)"
    by (cases "start_all e st batch")
  then have "quote_step e st st1"
    using step_start_all [of e st batch] by simp
  moreover have "quote_step e st1 (snd (settle_all e st1 ps))"
    by (rule step_settle_all)
  ultimately show ?thesis
    using ps by (auto simp: fetchBatch_def intro: quote_step_trans)
qed

text \<open>One iteration up to its decision: the guard check, then the batch.\<close>

lemma step_check_batch:
  "quote_step e st (snd (fetchBatch e (snd (isRateLimited e st)) batch))"
  using step_isRateLimited step_fetchBatch by (rule quote_step_trans)

text \<open>The request log: at most one request per symbol of a batch, in batch order.\<close>

lemma requests_resume:
  "requests (snd (fetchStockQuote_resume e st s n d tr)) = requests st"
  by (simp add: fetchStockQuote_resume_def fetchStockQuote_response_def
      fetchStockQuote_catch_def triggerRateLimit_eq Let_def
      split: sum.splits option.splits list.splits)

lemma requests_settle_all: "requests (snd (settle_all e st ps)) = requests st"
proof (induction ps arbitrary: st)
  case Nil
  show ?case by simp
next
  case (Cons a ps)
  obtain p s where a: "a = (p, s)" by (cases a)
  show ?case
    using a Cons.IH by (cases p) (simp_all add: split_beta requests_resume)
qed

lemma requests_start:
  "requests (snd (fetchStockQuote_start e st s n d)) = requests st \<or>
   requests (snd (fetchStockQuote_start e st s n d)) = requests st @ [s]"
  by (simp add: fetchStockQuote_start_def split_beta isRateLimited_snd)

lemma requests_start_all:
  "\<exists>rs. requests (snd (start_all e st ss)) = requests st @ rs \<and> subseq rs (map symbol ss)"
proof (induction ss arbitrary: st)
  case Nil
  show ?case by simp
next
  case (Cons s ss)
  let ?st1 = "snd (fetchStockQuote_start e st (symbol s) (name s) (display s))"
  obtain rs where rs: "requests (snd (start_all e ?st1 ss)) = requests ?st1 @ rs"
      "subseq rs (map symbol ss)"
    using Cons.IH [of ?st1] by blast
  have eq: "snd (start_all e st (s # ss)) = snd (start_all e ?st1 ss)"
    by (simp add: split_beta)
  from requests_start [of e st "symbol s" "name s" "display s"] show ?case
  proof
    assume "requests ?st1 = requests st"
    then have "requests (snd (start_all e st (s # ss))) = requests st @ rs"
      using eq rs(1) by simp
    moreover have "subseq rs (map symbol (s # ss))"
      using rs(2) by (simp add: list_emb_Cons)
    ultimately show ?thesis by blast
  next
    assume "requests ?st1 = requests st @ [symbol s]"
    then have "requests (snd (start_all e st (s # ss))) = requests st @ (symbol s # rs)"
      using eq rs(1) by simp
    moreover have "subseq (symbol s # rs) (map symbol (s # ss))"
      using rs(2) by simp
    ultimately show ?thesis by blast
  qed
qed

lemma requests_check_batch:
  "\<exists>rs. requests (snd (fetchBatch e (snd (isRateLimited e st)) batch)) = requests st @ rs \<and>
     subseq rs (map symbol batch)"
  using requests_start_all [of e "snd (isRateLimited e st)" batch]
  by (simp add: fetchBatch_def split_beta requests_settle_all isRateLimited_snd)

lemma loop_step_refl: "loop_step e st st"
  by (simp add: loop_step_def)

lemma loop_step_trans: "loop_step e a b \<Longrightarrow> loop_step e b c \<Longrightarrow> loop_step e a c"
  by (auto simp: loop_step_def)

lemma quote_step_loop_step: "quote_step e st st' \<Longrightarrow> loop_step e st st'"
  by (simp add: quote_step_def loop_step_def)

lemma loop_step_call_onBatch: "loop_step e st (call_onBatch opts arg st)"
  by (simp add: loop_step_def call_onBatch_def expiry_ok_def)

lemma loop_step_fetchLoop: "loop_step e st (snd (fetchLoop e opts st results bs))"
proof (induction bs arbitrary: st results)
  case Nil
  show ?case by (simp add: loop_step_refl)
next
  case (Cons batch rest)
  let ?st1 = "snd (isRateLimited e st)"
  let ?st2 = "snd (fetchBatch e ?st1 batch)"
  let ?rs = "results @ fst (fetchBatch e ?st1 batch)"
  let ?st3 = "call_onBatch opts (filter (\<lambda>r. price r \<noteq> Null) ?rs) ?st2"
  have s1: "loop_step e st ?st1"
    by (rule quote_step_loop_step [OF step_isRateLimited])
  have s2: "loop_step e st ?st2"
    by (rule quote_step_loop_step [OF step_check_batch])
  have s3: "loop_step e st ?st3"
    using s2 loop_step_call_onBatch by (rule loop_step_trans)
  have s4: "loop_step e st (snd (fetchLoop e opts ?st3 ?rs rest))"
    using s3 Cons.IH by (rule loop_step_trans)
  show ?case
    using s1 s2 s4 by (simp add: split_beta Let_def)
qed

text \<open>
  Claim C4. Let the clock never run backwards and let the stored expiry be at
  most one cooldown window ahead of the current reading (as it is when it was
  set at an earlier or equal time). Then a trigger stores exactly the current
  reading plus 300000 ms, which is not below the expiry stored before, and no
  operation of the module (the guard check, a trigger, a single-quote fetch,
  a batch fetch) leaves a smaller expiry than it found. The fetches also
  leave the expiry at most one window ahead of the clock, so the assumption
  holds again for the next operation. The crypto fetch has no access to the
  expiry.
\<close>

theorem expiry_never_decreases:
  assumes "\<forall>i j. i \<le> j \<longrightarrow> clock e i \<le> clock e j"
    and "rateLimitedUntil st \<le> clock e (ticks st) + COOLDOWN_MS"
  shows "rateLimitedUntil (triggerRateLimit e st) = clock e (ticks st) + 300000 \<and>
         rateLimitedUntil st \<le> rateLimitedUntil (triggerRateLimit e st) \<and>
         rateLimitedUntil st \<le> rateLimitedUntil (snd (isRateLimited e st)) \<and>
         rateLimitedUntil st \<le> rateLimitedUntil (snd (fetchStockQuote e st smb nm disp)) \<and>
         rateLimitedUntil st \<le>
           rateLimitedUntil (snd (fetchMultipleStocks chunk e st symbols opts)) \<and>
         rateLimitedUntil (snd (fetchStockQuote e st smb nm disp)) \<le>
           clock e (ticks (snd (fetchStockQuote e st smb nm disp))) + COOLDOWN_MS \<and>
         rateLimitedUntil (snd (fetchMultipleStocks chunk e st symbols opts)) \<le>
           clock e (ticks (snd (fetchMultipleStocks chunk e st symbols opts))) + COOLDOWN_MS"
proof -
  have m: "monotone_clock e" and ok: "expiry_ok e st"
    using assms by (simp_all add: monotone_clock_def expiry_ok_def)
  have t: "rateLimitedUntil (triggerRateLimit e st) = clock e (ticks st) + 300000"
    by (simp add: triggerRateLimit_eq COOLDOWN_MS_def)
  have t2: "rateLimitedUntil st \<le> rateLimitedUntil (triggerRateLimit e st)"
    using step_trigger [of e st] m ok by (simp add: quote_step_def)
  have i: "rateLimitedUntil st \<le> rateLimitedUntil (snd (isRateLimited e st))"
    by (simp add: isRateLimited_snd)
  have q: "rateLimitedUntil st \<le> rateLimitedUntil (snd (fetchStockQuote e st smb nm disp))"
    and q': "expiry_ok e (snd (fetchStockQuote e st smb nm disp))"
    using step_fetchStockQuote [of e st smb nm disp] m ok by (simp_all add: quote_step_def)
  let ?st1 = "snd (isRateLimited e st)"
  let ?bs = "chunk symbols (case batchSize opts of None \<Rightarrow> 2 | Some b \<Rightarrow> b)"
  have "loop_step e st ?st1"
    by (rule quote_step_loop_step [OF step_isRateLimited])
  moreover have "loop_step e ?st1 (snd (fetchLoop e opts ?st1 [] ?bs))"
    by (rule loop_step_fetchLoop)
  ultimately have "loop_step e st (snd (fetchLoop e opts ?st1 [] ?bs))"
    by (rule loop_step_trans)
  then have l: "rateLimitedUntil st \<le> rateLimitedUntil (snd (fetchLoop e opts ?st1 [] ?bs))"
    and l': "expiry_ok e (snd (fetchLoop e opts ?st1 [] ?bs))"
    using m ok by (simp_all add: loop_step_def)
  have i': "expiry_ok e ?st1"
    using step_isRateLimited [of e st] m ok by (simp add: quote_step_def)
  have f: "rateLimitedUntil st \<le>
      rateLimitedUntil (snd (fetchMultipleStocks chunk e st symbols opts))"
    using l i by (simp add: fetchMultipleStocks_def split_beta Let_def call_onBatch_def)
  have f': "expiry_ok e (snd (fetchMultipleStocks chunk e st symbols opts))"
    using l' i'
    by (simp add: fetchMultipleStocks_def split_beta Let_def call_onBatch_def expiry_ok_def)
  show ?thesis
    using t t2 i q f q' f' by (simp add: expiry_ok_def)
qed

text \<open>
  A second trigger one clock reading after a first: the expiry goes from
  300000 to 301000. The demo batch run from the triggered state keeps it at
  300000 or above.
\<close>

theorem expiry_never_decreases_witness:
  "rateLimitedUntil (triggerRateLimit (env_ticking demo_answer) initial_state) = 300000 \<and>
   rateLimitedUntil (triggerRateLimit (env_ticking demo_answer)
     (triggerRateLimit (env_ticking demo_answer) initial_state)) = 301000 \<and>
   300000 \<le> rateLimitedUntil (snd (fetchMultipleStocks chunkArray (env_ticking demo_answer)
     (triggerRateLimit (env_ticking demo_answer) initial_state) demo_symbols demo_options))"
proof -
  let ?e = "env_ticking demo_answer"
  let ?st = "triggerRateLimit ?e initial_state"
  have m: "\<forall>i j. i \<le> j \<longrightarrow> clock ?e i \<le> clock ?e j"
    by (simp add: env_ticking_def)
  have ok: "rateLimitedUntil ?st \<le> clock ?e (ticks ?st) + COOLDOWN_MS"
    by (simp add: env_ticking_def triggerRateLimit_eq initial_state_def)
  have v: "rateLimitedUntil ?st = 300000"
    by (simp add: env_ticking_def triggerRateLimit_eq initial_state_def COOLDOWN_MS_def)
  have c: "clock ?e (ticks ?st) = 1000"
    by (simp add: env_ticking_def triggerRateLimit_eq initial_state_def)
  show ?thesis
    using expiry_never_decreases [OF m ok, of "''A''" "''A''" "''A''" chunkArray demo_symbols
        demo_options] v c
    by simp
qed

subsection \<open>Single-quote fetch\<close>

lemma resume_quote:
  "symbol (fst (fetchStockQuote_resume e st smb nm disp tr)) = smb \<and>
   name (fst (fetchStockQuote_resume e st smb nm disp tr)) = nm \<and>
   display (fst (fetchStockQuote_resume e st smb nm disp tr)) = disp \<and>
   (case parsed_meta tr of
      None \<Rightarrow> price (fst (fetchStockQuote_resume e st smb nm disp tr)) = Null \<and>
              change (fst (fetchStockQuote_resume e st smb nm disp tr)) = Null
    | Some m \<Rightarrow>
        price (fst (fetchStockQuote_resume e st smb nm disp tr)) = regularMarketPrice m \<and>
        (\<exists>c. change (fst (fetchStockQuote_resume e st smb nm disp tr)) = Num c))"
  by (auto simp: fetchStockQuote_resume_def fetchStockQuote_response_def
      fetchStockQuote_catch_def parsed_meta_def Let_def
      split: sum.splits option.splits list.splits)

text \<open>
  Claim C2, as stated, has price and change both numbers or both null for
  every transport behaviour. It fails on a response that is ok and parses to
  a body whose \<open>meta\<close> has no usable \<open>regularMarketPrice\<close>: with the field missing
  the returned price is \<open>undefined\<close> beside the change \<open>NaN\<close>, and with the field
  \<open>null\<close> the returned price is \<open>null\<close> beside the change -100 (a previous close of
  100 in both bodies).
\<close>

theorem price_and_change_counterexample:
  "fst (fetchStockQuote (env_at 0 answer_no_price) initial_state ''A'' ''a'' ''b'') =
     \<lparr>symbol = ''A'', name = ''a'', display = ''b'', price = Undefined, change = Num NaN,
       rateLimited = None\<rparr> \<and>
   fst (fetchStockQuote (env_at 0 answer_null_price) initial_state ''A'' ''a'' ''b'') =
     \<lparr>symbol = ''A'', name = ''a'', display = ''b'', price = Null,
       change = Num (Fin (- 100)), rateLimited = None\<rparr>"
  by code_simp

text \<open>
  Claim C2, amended. Whatever the environment answers (a rejected request, any
  status, a body that fails to parse, a body without \<open>meta\<close>, a full body), a
  call of \<open>fetchStockQuote\<close> returns a quote: every value thrown inside the
  \<open>try\<close> ends in the \<open>catch\<close> block, which returns. The quote carries the
  symbol, name and display it was called with. Its price and change are both
  null when the guard is limited and whenever the answer holds no \<open>meta\<close> to
  read; otherwise its change is a number and its price is
  \<open>regularMarketPrice\<close> as found. So price and change are both numbers when
  \<open>regularMarketPrice\<close> is a number (\<open>NaN\<close> and the infinities are numbers), as
  the declared response type has it.
\<close>

theorem fetchStockQuote_always_returns_quote:
  "symbol (fst (fetchStockQuote e st smb nm disp)) = smb \<and>
   name (fst (fetchStockQuote e st smb nm disp)) = nm \<and>
   display (fst (fetchStockQuote e st smb nm disp)) = disp \<and>
   (if fst (isRateLimited e st)
    then price (fst (fetchStockQuote e st smb nm disp)) = Null \<and>
         change (fst (fetchStockQuote e st smb nm disp)) = Null
    else (case parsed_meta (net e (length (requests st)) smb) of
        None \<Rightarrow> price (fst (fetchStockQuote e st smb nm disp)) = Null \<and>
                change (fst (fetchStockQuote e st smb nm disp)) = Null
      | Some m \<Rightarrow>
          price (fst (fetchStockQuote e st smb nm disp)) = regularMarketPrice m \<and>
          (\<exists>c. change (fst (fetchStockQuote e st smb nm disp)) = Num c)))"
proof (cases "fst (isRateLimited e st)")
  case True
  then show ?thesis
    by (simp add: fetchStockQuote_def fetchStockQuote_start_def split_beta)
next
  case False
  let ?st1 = "(snd (isRateLimited e st))\<lparr>requests := requests (snd (isRateLimited e st)) @ [smb]\<rparr>"
  have k: "length (requests (snd (isRateLimited e st))) = length (requests st)"
    by (simp add: isRateLimited_snd)
  have eq: "fetchStockQuote e st smb nm disp =
      fetchStockQuote_resume e ?st1 smb nm disp (net e (length (requests st)) smb)"
    using False k by (simp add: fetchStockQuote_def fetchStockQuote_start_def split_beta)
  show ?thesis
    unfolding eq
    using False resume_quote [of e ?st1 smb nm disp "net e (length (requests st)) smb"]
    by simp
qed

text \<open>
  A body of the declared type, with price 150 against a previous close of 100:
  price and change are both numbers.
\<close>

theorem fetchStockQuote_always_returns_quote_witness:
  "symbol (fst (fetchStockQuote (env_at 0 demo_answer) initial_state ''A'' ''a'' ''b'')) = ''A'' \<and>
   price (fst (fetchStockQuote (env_at 0 demo_answer) initial_state ''A'' ''a'' ''b'')) =
     Num (Fin 150) \<and>
   change (fst (fetchStockQuote (env_at 0 demo_answer) initial_state ''A'' ''a'' ''b'')) =
     Num (Fin 50) \<and>
   price (fst (fetchStockQuote (env_at 0 offline) initial_state ''A'' ''a'' ''b'')) = Null \<and>
   change (fst (fetchStockQuote (env_at 0 offline) initial_state ''A'' ''a'' ''b'')) = Null"
proof -
  have "change (fst (fetchStockQuote (env_at 0 demo_answer) initial_state ''A'' ''a'' ''b'')) =
      Num (Fin 50)"
    by code_simp
  then show ?thesis
    using fetchStockQuote_always_returns_quote
        [of "env_at 0 demo_answer" initial_state "''A''" "''a''" "''b''"]
      fetchStockQuote_always_returns_quote
        [of "env_at 0 offline" initial_state "''A''" "''a''" "''b''"]
    by (simp add: isRateLimited_fst env_at_def initial_state_def parsed_meta_def
        demo_answer_def ok_response_def offline_def)
qed

lemma or_reference:
  "to_number (or_val (or_else (chartPreviousClose m) (previousClose m)) (regularMarketPrice m)) =
     reference_if_usable m"
  by (simp add: or_val_def or_else_def reference_if_usable_def usable_def split: option.splits)

text \<open>
  Claim C7, as stated, takes the chart-specific previous close as the
  reference whenever the field is present. It fails when the field is present
  and 0: for a price of 150, a chart-specific previous close of 0 and a generic
  previous close of 100 the source returns a change of 50 (against 100), while
  the reference by presence is 0 and gives an infinite change.
\<close>

theorem reference_by_presence_counterexample:
  "change (fst (fetchStockQuote_resume (env_at 0 offline) initial_state ''A'' ''a'' ''b''
      (ok_response meta_zero_chart))) \<noteq>
     Num (percent_change (to_number (regularMarketPrice meta_zero_chart))
       (reference_if_present meta_zero_chart)) \<and>
   change (fst (fetchStockQuote_resume (env_at 0 offline) initial_state ''A'' ''a'' ''b''
      (ok_response meta_zero_chart))) = Num (Fin 50) \<and>
   percent_change (to_number (regularMarketPrice meta_zero_chart))
      (reference_if_present meta_zero_chart) = PInf"
  by (simp add: fetchStockQuote_resume_def fetchStockQuote_response_def ok_response_def
      meta_zero_chart_def percent_change_def reference_if_present_def or_val_def or_else_def)

text \<open>
  Claim C7, amended. On a response that is not 429, is ok and parses to a body
  whose first result has a \<open>meta\<close>, the returned price is \<open>regularMarketPrice\<close>
  and the returned change is (price - reference) / reference * 100, where the
  reference is the chart-specific previous close when that field is present
  and truthy, otherwise the generic previous close when present and truthy,
  otherwise the price itself; in that last case the change is 0 for a finite
  non-zero price.
\<close>

theorem fetchStockQuote_change:
  assumes "status resp \<noteq> 429" and "ok resp" and "json resp = Inr data"
    and "result (chart data) = r # rs" and "meta r = Some m"
  shows "fetchStockQuote_resume e st smb nm disp (Inr resp) =
           (\<lparr>symbol = smb, name = nm, display = disp, price = regularMarketPrice m,
              change = Num (percent_change (to_number (regularMarketPrice m))
                 (reference_if_usable m)),
              rateLimited = None\<rparr>, st) \<and>
         (\<not> usable (chartPreviousClose m) \<and> \<not> usable (previousClose m) \<and>
            regularMarketPrice m = Num (Fin x) \<and> x \<noteq> 0 \<longrightarrow>
          percent_change (to_number (regularMarketPrice m)) (reference_if_usable m) = Fin 0)"
  using assms
  by (simp add: fetchStockQuote_resume_def fetchStockQuote_response_def percent_change_def
      or_reference reference_if_usable_def Let_def)

text \<open>The same response: price 150 against the generic previous close 100.\<close>

theorem fetchStockQuote_change_witness:
  "fetchStockQuote_resume (env_at 0 offline) initial_state ''A'' ''a'' ''b''
      (ok_response meta_zero_chart) =
     (\<lparr>symbol = ''A'', name = ''a'', display = ''b'', price = Num (Fin 150),
        change = Num (Fin 50), rateLimited = None\<rparr>, initial_state)"
  using fetchStockQuote_change [of "\<lparr>status = 200, ok = True,
          json = Inr \<lparr>chart = \<lparr>result = [\<lparr>meta = Some meta_zero_chart\<rparr>]\<rparr>\<rparr>\<rparr>"
        "\<lparr>chart = \<lparr>result = [\<lparr>meta = Some meta_zero_chart\<rparr>]\<rparr>\<rparr>"
        "\<lparr>meta = Some meta_zero_chart\<rparr>" "[]" meta_zero_chart
        "env_at 0 offline" initial_state "''A''" "''a''" "''b''" 150]
  by (simp add: ok_response_def meta_zero_chart_def percent_change_def reference_if_usable_def
      usable_def)

text \<open>
  Claim C9. When the chart-specific previous close is present but is 0 or
  \<open>NaN\<close>, a successful fetch does not use it: the reference is the generic
  previous close when that one is present and truthy, and the price itself
  otherwise.
\<close>

theorem falsy_chart_close_is_skipped:
  assumes "c = Fin 0 \<or> c = NaN" and "k \<noteq> 429"
  shows "fetchStockQuote_resume e st smb nm disp
           (Inr \<lparr>status = k, ok = True,
              json = Inr \<lparr>chart = \<lparr>result =
                \<lparr>meta = Some \<lparr>regularMarketPrice = p, chartPreviousClose = Some c,
                   previousClose = g\<rparr>\<rparr> # rs\<rparr>\<rparr>\<rparr>) =
           (\<lparr>symbol = smb, name = nm, display = disp, price = p,
              change = Num (percent_change (to_number p)
                 (case g of None \<Rightarrow> to_number p
                  | Some x \<Rightarrow> if truthy x then x else to_number p)),
              rateLimited = None\<rparr>, st)"
  using assms
  by (auto simp: fetchStockQuote_resume_def fetchStockQuote_response_def percent_change_def
      or_val_def or_else_def Let_def split: option.splits)

text \<open>A chart-specific previous close of \<open>NaN\<close>: the generic 100 is the reference.\<close>

theorem falsy_chart_close_is_skipped_witness:
  "fetchStockQuote_resume (env_at 0 offline) initial_state ''A'' ''a'' ''b''
      (Inr \<lparr>status = 200, ok = True,
         json = Inr \<lparr>chart = \<lparr>result =
           [\<lparr>meta = Some \<lparr>regularMarketPrice = Num (Fin 150), chartPreviousClose = Some NaN,
              previousClose = Some (Fin 100)\<rparr>\<rparr>]\<rparr>\<rparr>\<rparr>) =
     (\<lparr>symbol = ''A'', name = ''a'', display = ''b'', price = Num (Fin 150),
        change = Num (Fin 50), rateLimited = None\<rparr>, initial_state)"
  using falsy_chart_close_is_skipped [of NaN 200 "env_at 0 offline" initial_state
      "''A''" "''a''" "''b''" "Num (Fin 150)" "Some (Fin 100)" "[]"]
  by (simp add: percent_change_def)

subsection \<open>Batch fetch\<close>

text \<open>
  Claim C5. When \<open>fetchMultipleStocks\<close> is called while the guard is limited,
  it issues no request. With a non-empty cache it returns the cache and, when
  a callback was supplied, invokes it once, with the cache; with an empty
  cache it returns the empty list and invokes nothing.
\<close>

theorem fetchMultipleStocks_while_limited:
  assumes "clock e (ticks st) < rateLimitedUntil st"
  shows "requests (snd (fetchMultipleStocks chunk e st symbols opts)) = requests st \<and>
         (if lastSuccessfulResults st \<noteq> []
          then fst (fetchMultipleStocks chunk e st symbols opts) = lastSuccessfulResults st \<and>
               onBatch_calls (snd (fetchMultipleStocks chunk e st symbols opts)) =
                 onBatch_calls st @ (if onBatch opts then [lastSuccessfulResults st] else [])
          else fst (fetchMultipleStocks chunk e st symbols opts) = [] \<and>
               onBatch_calls (snd (fetchMultipleStocks chunk e st symbols opts)) =
                 onBatch_calls st)"
  using assms
  by (simp add: fetchMultipleStocks_def isRateLimited_def Date_now_def call_onBatch_def)

text \<open>At time 1000 inside a cooldown that ends at 300000, with one cached quote.\<close>

theorem fetchMultipleStocks_while_limited_witness:
  "requests (snd (fetchMultipleStocks chunkArray (env_at 1000 demo_answer) limited_state
      demo_symbols demo_options)) = [] \<and>
   fst (fetchMultipleStocks chunkArray (env_at 1000 demo_answer) limited_state
      demo_symbols demo_options) = [demo_quote ''A''] \<and>
   onBatch_calls (snd (fetchMultipleStocks chunkArray (env_at 1000 demo_answer) limited_state
      demo_symbols demo_options)) = [lastSuccessfulResults limited_state]"
proof -
  have h: "clock (env_at 1000 demo_answer) (ticks limited_state) <
      rateLimitedUntil limited_state"
    by (simp add: env_at_def limited_state_def)
  show ?thesis
    using fetchMultipleStocks_while_limited [OF h, of chunkArray demo_symbols demo_options]
    by (simp add: limited_state_def demo_options_def)
qed

text \<open>
  Claim C6. In a run that passes the guard at entry, the returned list is the
  accumulated \<open>results\<close> of the loop filtered to the quotes with a non-null
  price; the cache becomes that list when it is non-empty and keeps its
  previous content when every accumulated result has a null price. A run
  stopped by the guard at entry accumulates nothing and leaves the cache as it
  was.
\<close>

theorem fetchMultipleStocks_result_and_cache:
  "(\<not> fst (isRateLimited e st) \<longrightarrow>
      fst (fetchMultipleStocks chunk e st symbols opts) =
        filter (\<lambda>r. price r \<noteq> Null)
          (fst (fetchLoop e opts (snd (isRateLimited e st)) []
             (chunk symbols (case batchSize opts of None \<Rightarrow> 2 | Some b \<Rightarrow> b)))) \<and>
      lastSuccessfulResults (snd (fetchMultipleStocks chunk e st symbols opts)) =
        (if \<forall>r \<in> set (fst (fetchLoop e opts (snd (isRateLimited e st)) []
               (chunk symbols (case batchSize opts of None \<Rightarrow> 2 | Some b \<Rightarrow> b)))).
              price r = Null
         then lastSuccessfulResults st
         else fst (fetchMultipleStocks chunk e st symbols opts))) \<and>
   (fst (isRateLimited e st) \<longrightarrow>
      lastSuccessfulResults (snd (fetchMultipleStocks chunk e st symbols opts)) =
        lastSuccessfulResults st)"
proof -
  let ?st1 = "snd (isRateLimited e st)"
  let ?bs = "chunk symbols (case batchSize opts of None \<Rightarrow> 2 | Some b \<Rightarrow> b)"
  have "lastSuccessfulResults (snd (fetchLoop e opts ?st1 [] ?bs)) = lastSuccessfulResults ?st1"
    using loop_step_fetchLoop [of e ?st1 opts "[]" ?bs] by (simp add: loop_step_def)
  moreover have "lastSuccessfulResults ?st1 = lastSuccessfulResults st"
    using step_isRateLimited [of e st] by (simp add: quote_step_def)
  ultimately show ?thesis
    by (auto simp: fetchMultipleStocks_def split_beta Let_def call_onBatch_def
        filter_empty_conv)
qed

text \<open>
  With every request failing, the run returns nothing and the cached quote
  stays; in the demo run the cache is replaced by the two quotes returned.
\<close>

theorem fetchMultipleStocks_result_and_cache_witness:
  "\<not> fst (isRateLimited (env_at 1000 offline) cached_state) \<and>
   fst (fetchMultipleStocks chunkArray (env_at 1000 offline) cached_state demo_symbols
      demo_options) = [] \<and>
   lastSuccessfulResults (snd (fetchMultipleStocks chunkArray (env_at 1000 offline)
      cached_state demo_symbols demo_options)) = [demo_quote ''A''] \<and>
   lastSuccessfulResults (snd (fetchMultipleStocks chunkArray (env_at 1000 demo_answer)
      cached_state demo_symbols demo_options)) = quotes_AB"
proof -
  have h: "\<not> fst (isRateLimited (env_at 1000 offline) cached_state)"
    by code_simp
  have h': "\<not> fst (isRateLimited (env_at 1000 demo_answer) cached_state)"
    by code_simp
  have a: "fst (fetchLoop (env_at 1000 offline) demo_options
      (snd (isRateLimited (env_at 1000 offline) cached_state)) []
      (chunkArray demo_symbols 2)) =
    [\<lparr>symbol = ''A'', name = ''A'', display = ''A'', price = Null, change = Null,
       rateLimited = None\<rparr>,
     \<lparr>symbol = ''B'', name = ''B'', display = ''B'', price = Null, change = Null,
       rateLimited = None\<rparr>,
     \<lparr>symbol = ''C'', name = ''C'', display = ''C'', price = Null, change = Null,
       rateLimited = None\<rparr>,
     \<lparr>symbol = ''D'', name = ''D'', display = ''D'', price = Null, change = Null,
       rateLimited = None\<rparr>,
     \<lparr>symbol = ''E'', name = ''E'', display = ''E'', price = Null, change = Null,
       rateLimited = None\<rparr>]"
    by code_simp
  have a': "fst (fetchLoop (env_at 1000 demo_answer) demo_options
      (snd (isRateLimited (env_at 1000 demo_answer) cached_state)) []
      (chunkArray demo_symbols 2)) = quotes_AB"
    by code_simp
  have c: "lastSuccessfulResults cached_state = [demo_quote ''A'']"
    by (simp add: cached_state_def)
  show ?thesis
    using h h' a a' c
      fetchMultipleStocks_result_and_cache
        [of "env_at 1000 offline" cached_state chunkArray demo_symbols demo_options]
      fetchMultipleStocks_result_and_cache
        [of "env_at 1000 demo_answer" cached_state chunkArray demo_symbols demo_options]
    by (simp add: demo_options_def quotes_AB_def demo_quote_def)
qed

lemma fetchLoop_calls:
  "\<exists>new. onBatch_calls (snd (fetchLoop e opts st results bs)) = onBatch_calls st @ new \<and>
     sorted_wrt prefix new \<and>
     (\<forall>c \<in> set new. prefix (filter (\<lambda>r. price r \<noteq> Null) results) c)"
proof (induction bs arbitrary: st results)
  case Nil
  show ?case by simp
next
  case (Cons batch rest)
  let ?st1 = "snd (isRateLimited e st)"
  let ?st2 = "snd (fetchBatch e ?st1 batch)"
  let ?rs = "results @ fst (fetchBatch e ?st1 batch)"
  let ?vis = "filter (\<lambda>r. price r \<noteq> Null) ?rs"
  let ?st3 = "call_onBatch opts ?vis ?st2"
  have c1: "onBatch_calls ?st1 = onBatch_calls st"
    using step_isRateLimited [of e st] by (simp add: quote_step_def)
  have c2: "onBatch_calls ?st2 = onBatch_calls st"
    using step_check_batch [of e st batch] by (simp add: quote_step_def)
  show ?case
  proof (cases "fst (isRateLimited e st) \<or> list_ex flagged (fst (fetchBatch e ?st1 batch))")
    case True
    then show ?thesis
      using c1 c2 by (auto simp: split_beta)
  next
    case False
    then have loop: "fetchLoop e opts st results (batch # rest) = fetchLoop e opts ?st3 ?rs rest"
      by (simp add: split_beta Let_def)
    obtain new where new:
      "onBatch_calls (snd (fetchLoop e opts ?st3 ?rs rest)) = onBatch_calls ?st3 @ new"
      "sorted_wrt prefix new" "\<forall>c \<in> set new. prefix ?vis c"
      using Cons.IH [of ?st3 ?rs] by blast
    have pre: "prefix (filter (\<lambda>r. price r \<noteq> Null) results) ?vis"
      by simp
    have below: "\<forall>c \<in> set new. prefix (filter (\<lambda>r. price r \<noteq> Null) results) c"
      using new(3) pre by (meson prefix_order.order_trans)
    show ?thesis
    proof (cases "onBatch opts")
      case True
      then have "onBatch_calls ?st3 = onBatch_calls st @ [?vis]"
        using c2 by (simp add: call_onBatch_def)
      then have "onBatch_calls (snd (fetchLoop e opts st results (batch # rest))) =
          onBatch_calls st @ (?vis # new)"
        using loop new(1) by simp
      moreover have "sorted_wrt prefix (?vis # new)"
        using new(2,3) by simp
      moreover have "\<forall>c \<in> set (?vis # new). prefix (filter (\<lambda>r. price r \<noteq> Null) results) c"
        using below pre by simp
      ultimately show ?thesis by blast
    next
      case False
      then have "onBatch_calls ?st3 = onBatch_calls st"
        using c2 by (simp add: call_onBatch_def)
      then have "onBatch_calls (snd (fetchLoop e opts st results (batch # rest))) =
          onBatch_calls st @ new"
        using loop new(1) by simp
      then show ?thesis
        using new(2) below by blast
    qed
  qed
qed

text \<open>
  Claim C10. The callback invocations of one \<open>fetchMultipleStocks\<close> call are
  the entries this call adds to the callback log. Their arguments grow: each
  earlier argument is a prefix of every later one.
\<close>

theorem onBatch_arguments_grow:
  "sorted_wrt prefix
     (drop (length (onBatch_calls st))
        (onBatch_calls (snd (fetchMultipleStocks chunk e st symbols opts))))"
proof (cases "fst (isRateLimited e st)")
  case True
  have "onBatch_calls (snd (isRateLimited e st)) = onBatch_calls st"
    using step_isRateLimited [of e st] by (simp add: quote_step_def)
  then show ?thesis
    using True by (simp add: fetchMultipleStocks_def split_beta call_onBatch_def)
next
  case False
  let ?st1 = "snd (isRateLimited e st)"
  let ?bs = "chunk symbols (case batchSize opts of None \<Rightarrow> 2 | Some b \<Rightarrow> b)"
  have c1: "onBatch_calls ?st1 = onBatch_calls st"
    using step_isRateLimited [of e st] by (simp add: quote_step_def)
  obtain new where new:
    "onBatch_calls (snd (fetchLoop e opts ?st1 [] ?bs)) = onBatch_calls ?st1 @ new"
    "sorted_wrt prefix new"
    using fetchLoop_calls [of e opts ?st1 "[]" ?bs] by blast
  have "onBatch_calls (snd (fetchMultipleStocks chunk e st symbols opts)) =
      onBatch_calls st @ new"
    using False new(1) c1 by (simp add: fetchMultipleStocks_def split_beta Let_def)
  then show ?thesis
    using new(2) by simp
qed

text \<open>
  Claim C1, as stated, keeps the results of a chunk that holds a rate-limited
  quote. The demo run refutes it. The run reaches its second iteration with
  the two quotes of chunk 1 accumulated; chunk 2 then yields a quote for \<open>C\<close>
  with a price and a flagged quote for \<open>D\<close>; the call returns the two quotes of
  chunk 1 only, so the priced quote of chunk 2 is not in the returned list.
  (Four requests were issued: chunk 3 was not attempted.)
\<close>

theorem flagged_chunk_kept_counterexample:
  "fetchLoop (env_at 1000 demo_answer) demo_options
     (snd (isRateLimited (env_at 1000 demo_answer) initial_state)) []
     (chunkArray demo_symbols 2) =
   fetchLoop (env_at 1000 demo_answer) demo_options before_second_chunk quotes_AB
     [chunk_CD, chunk_E] \<and>
   fst (fetchBatch (env_at 1000 demo_answer)
      (snd (isRateLimited (env_at 1000 demo_answer) before_second_chunk)) chunk_CD) =
     [demo_quote ''C'',
      \<lparr>symbol = ''D'', name = ''D'', display = ''D'', price = Null, change = Null,
        rateLimited = Some True\<rparr>] \<and>
   fst (fetchMultipleStocks chunkArray (env_at 1000 demo_answer) initial_state demo_symbols
      demo_options) = [demo_quote ''A'', demo_quote ''B''] \<and>
   demo_quote ''C'' \<notin> set (fst (fetchMultipleStocks chunkArray (env_at 1000 demo_answer)
      initial_state demo_symbols demo_options)) \<and>
   requests (snd (fetchMultipleStocks chunkArray (env_at 1000 demo_answer) initial_state
      demo_symbols demo_options)) = [''A'', ''B'', ''C'', ''D'']"
  by code_simp

text \<open>
  Claim C1, amended. When the guard lets an iteration start and some quote of
  its chunk carries the rate-limited flag, the loop ends there: the chunk's
  results are not appended, so the accumulated list is the one of the earlier
  chunks; the state is the one the chunk's fetch left; the callback is not
  invoked for this chunk; and the requests issued from this iteration on are
  requests for symbols of this chunk, in chunk order, so no later chunk is
  attempted.
\<close>

theorem flagged_chunk_is_dropped:
  assumes "\<not> fst (isRateLimited e st)"
    and "list_ex flagged (fst (fetchBatch e (snd (isRateLimited e st)) batch))"
  shows "fetchLoop e opts st results (batch # rest) =
           (results, snd (fetchBatch e (snd (isRateLimited e st)) batch)) \<and>
         onBatch_calls (snd (fetchLoop e opts st results (batch # rest))) = onBatch_calls st \<and>
         (\<exists>rs. requests (snd (fetchLoop e opts st results (batch # rest))) = requests st @ rs \<and>
            subseq rs (map symbol batch))"
proof -
  have "onBatch_calls (snd (fetchBatch e (snd (isRateLimited e st)) batch)) = onBatch_calls st"
    using step_check_batch [of e st batch] by (simp add: quote_step_def)
  then show ?thesis
    using assms requests_check_batch [of e st batch] by (simp add: split_beta)
qed

text \<open>The second iteration of the demo run.\<close>

theorem flagged_chunk_is_dropped_witness:
  "fst (fetchLoop (env_at 1000 demo_answer) demo_options before_second_chunk quotes_AB
     [chunk_CD, chunk_E]) = quotes_AB \<and>
   onBatch_calls (snd (fetchLoop (env_at 1000 demo_answer) demo_options before_second_chunk
     quotes_AB [chunk_CD, chunk_E])) = [quotes_AB]"
proof -
  have h1: "\<not> fst (isRateLimited (env_at 1000 demo_answer) before_second_chunk)"
    by code_simp
  have h2: "list_ex flagged (fst (fetchBatch (env_at 1000 demo_answer)
      (snd (isRateLimited (env_at 1000 demo_answer) before_second_chunk)) chunk_CD))"
    by code_simp
  have c: "onBatch_calls before_second_chunk = [quotes_AB]"
    by (simp add: before_second_chunk_def)
  note r = flagged_chunk_is_dropped [OF h1 h2, of demo_options quotes_AB "[chunk_E]"]
  have "fst (fetchLoop (env_at 1000 demo_answer) demo_options before_second_chunk quotes_AB
      [chunk_CD, chunk_E]) = quotes_AB"
    using conjunct1 [OF r] by (simp only: fst_conv)
  moreover have "onBatch_calls (snd (fetchLoop (env_at 1000 demo_answer) demo_options
      before_second_chunk quotes_AB [chunk_CD, chunk_E])) = [quotes_AB]"
    using conjunct1 [OF conjunct2 [OF r]] c by (simp only:)
  ultimately show ?thesis
    by (rule conjI)
qed

subsection \<open>Crypto fetch\<close>

text \<open>
  Claim C8. A rejected request, a response that is not ok and a body that
  fails to parse each give the empty list. Otherwise the list has one entry
  per configured id, in the order of the configuration, with the configured
  name and symbol; an id missing from the body has price 0 and change 0, an id
  in the body has its \<open>usd\<close> and \<open>usd_24h_change\<close> values (0 for a missing
  field). The function has no other outcome.
\<close>

theorem fetchCrypto_entries:
  "(case tr of
      Inl msg \<Rightarrow> fetchCrypto cm tr = []
    | Inr resp \<Rightarrow>
        if \<not> ok resp then fetchCrypto cm tr = []
        else (case json resp of
            Inl msg \<Rightarrow> fetchCrypto cm tr = []
          | Inr data \<Rightarrow>
              length (fetchCrypto cm tr) = length cm \<and>
              (\<forall>i < length cm.
                 crypto_name (fetchCrypto cm tr ! i) = info_name (snd (cm ! i)) \<and>
                 crypto_symbol (fetchCrypto cm tr ! i) = info_symbol (snd (cm ! i)) \<and>
                 (case data (fst (cm ! i)) of
                    None \<Rightarrow> crypto_price (fetchCrypto cm tr ! i) = Fin 0 \<and>
                            crypto_change (fetchCrypto cm tr ! i) = Fin 0
                  | Some c \<Rightarrow>
                      crypto_price (fetchCrypto cm tr ! i) =
                        (case usd c of None \<Rightarrow> Fin 0 | Some v \<Rightarrow> v) \<and>
                      crypto_change (fetchCrypto cm tr ! i) =
                        (case usd_24h_change c of None \<Rightarrow> Fin 0 | Some v \<Rightarrow> v)))))"
  by (auto simp: fetchCrypto_def fetchCrypto_try_def split_beta
      split: sum.splits option.splits)

text \<open>Two configured ids, the second missing from the body.\<close>

theorem fetchCrypto_entries_witness:
  "length (fetchCrypto sample_crypto_map sample_crypto_response) = 2 \<and>
   crypto_symbol (fetchCrypto sample_crypto_map sample_crypto_response ! 0) = ''BTC'' \<and>
   crypto_price (fetchCrypto sample_crypto_map sample_crypto_response ! 0) = Fin 50000 \<and>
   crypto_symbol (fetchCrypto sample_crypto_map sample_crypto_response ! 1) = ''ETH'' \<and>
   crypto_price (fetchCrypto sample_crypto_map sample_crypto_response ! 1) = Fin 0 \<and>
   crypto_change (fetchCrypto sample_crypto_map sample_crypto_response ! 1) = Fin 0"
  using fetchCrypto_entries [of sample_crypto_map sample_crypto_response]
  by (simp add: sample_crypto_map_def sample_crypto_body_def sample_crypto_response_def
      All_less_Suc2 numeral_2_eq_2)

end
